theory Spec2Isabelle
  imports Complex_Main "HOL-Library.Word"
begin

section \<open>JavaScript values\<close>

text \<open>
  A JavaScript string is a sequence of UTF-16 code units. The literals of the program
  (\<^verbatim>\<open>'draft'\<close>, \<^verbatim>\<open>'linkedin'\<close>, ...) are ASCII and are written \<open>str ''draft''\<close>.
\<close>

type_synonym jsstring = "16 word list"

definition str :: "string \<Rightarrow> jsstring" where
  "str s = map (\<lambda>c. of_nat (of_char c)) s"

text \<open>
  A JSON value, as \<^verbatim>\<open>JSON.parse\<close> and \<^verbatim>\<open>express.json()\<close> produce it. A missing
  property (\<^verbatim>\<open>undefined\<close>) is \<open>None\<close> of an option.
\<close>

datatype jsval =
    JNull
  | JBool bool
  | JNum real
  | JStr jsstring
  | JArr "jsval list"
  | JObj "(jsstring \<times> jsval) list"

text \<open>Truthiness, as \<^verbatim>\<open>||\<close> and \<^verbatim>\<open>!\<close> read a value.\<close>

fun truthy :: "jsval \<Rightarrow> bool" where
  "truthy JNull = False"
| "truthy (JBool b) = b"
| "truthy (JNum r) = (r \<noteq> 0)"
| "truthy (JStr s) = (s \<noteq> [])"
| "truthy (JArr xs) = True"
| "truthy (JObj kvs) = True"

text \<open>\<^verbatim>\<open>Number.isInteger(v)\<close> for a property that may be missing.\<close>

fun isInteger :: "jsval option \<Rightarrow> bool" where
  "isInteger (Some (JNum r)) = (of_int \<lfloor>r\<rfloor> = r)"
| "isInteger _ = False"

section \<open>The runtime's Date\<close>

text \<open>
  A \<^verbatim>\<open>Date\<close> is its time value: milliseconds since the epoch, an integer. The methods
  the program calls are the abstract operations of ECMAScript (section "Date Objects"),
  with the local time zone a fixed offset \<open>tz\<close> from UTC in milliseconds (no daylight
  saving transitions inside the 30 days scanned) and time values inside the range a
  Date can hold.
\<close>

definition msPerDay :: int where "msPerDay = 86400000"
definition msPerHour :: int where "msPerHour = 3600000"
definition msPerMinute :: int where "msPerMinute = 60000"
definition msPerSecond :: int where "msPerSecond = 1000"

definition Day :: "int \<Rightarrow> int" where
  "Day t = t div msPerDay"

definition TimeWithinDay :: "int \<Rightarrow> int" where
  "TimeWithinDay t = t mod msPerDay"

definition DayFromYear :: "int \<Rightarrow> int" where
  "DayFromYear y = 365 * (y - 1970) + (y - 1969) div 4 - (y - 1901) div 100 + (y - 1601) div 400"

definition isLeapYear :: "int \<Rightarrow> bool" where
  "isLeapYear y = ((y mod 4 = 0 \<and> y mod 100 \<noteq> 0) \<or> y mod 400 = 0)"

text \<open>
  The year of a day number: the largest \<open>y\<close> with \<open>DayFromYear y \<le> d\<close>, computed from
  the 400, 100, 4 and 1 year cycles counted from 1 January of year 1 (day \<open>-719162\<close>).
\<close>

definition yearFromDay :: "int \<Rightarrow> int" where
  "yearFromDay d =
     (let n = d + 719162;
          n400 = n div 146097;
          r400 = n mod 146097;
          n100 = min 3 (r400 div 36524);
          r100 = r400 - n100 * 36524;
          n4 = r100 div 1461;
          r4 = r100 mod 1461;
          n1 = min 3 (r4 div 365)
      in 400 * n400 + 100 * n100 + 4 * n4 + n1 + 1)"

definition YearFromTime :: "int \<Rightarrow> int" where
  "YearFromTime t = yearFromDay (Day t)"

definition DayWithinYear :: "int \<Rightarrow> int" where
  "DayWithinYear t = Day t - DayFromYear (YearFromTime t)"

text \<open>The day within the year on which month \<open>m\<close> (0 to 11) starts.\<close>

definition monthStart :: "int \<Rightarrow> bool \<Rightarrow> int" where
  "monthStart m leap =
     (let l = (if leap then 1 else 0) in
      if m = 0 then 0 else if m = 1 then 31 else if m = 2 then 59 + l
      else if m = 3 then 90 + l else if m = 4 then 120 + l else if m = 5 then 151 + l
      else if m = 6 then 181 + l else if m = 7 then 212 + l else if m = 8 then 243 + l
      else if m = 9 then 273 + l else if m = 10 then 304 + l else 334 + l)"

definition MonthFromTime :: "int \<Rightarrow> int" where
  "MonthFromTime t =
     (let d = DayWithinYear t; l = (if isLeapYear (YearFromTime t) then 1 else 0) in
      if d < 31 then 0 else if d < 59 + l then 1 else if d < 90 + l then 2
      else if d < 120 + l then 3 else if d < 151 + l then 4 else if d < 181 + l then 5
      else if d < 212 + l then 6 else if d < 243 + l then 7 else if d < 273 + l then 8
      else if d < 304 + l then 9 else if d < 334 + l then 10 else 11)"

definition DateFromTime :: "int \<Rightarrow> int" where
  "DateFromTime t =
     DayWithinYear t - monthStart (MonthFromTime t) (isLeapYear (YearFromTime t)) + 1"

definition WeekDay :: "int \<Rightarrow> int" where
  "WeekDay t = (Day t + 4) mod 7"





definition MakeTime :: "int \<Rightarrow> int \<Rightarrow> int \<Rightarrow> int \<Rightarrow> int" where
  "MakeTime h m s ms = h * msPerHour + m * msPerMinute + s * msPerSecond + ms"

definition MakeDay :: "int \<Rightarrow> int \<Rightarrow> int \<Rightarrow> int" where
  "MakeDay y m dt =
     (let ym = y + m div 12; mn = m mod 12
      in DayFromYear ym + monthStart mn (isLeapYear ym) + dt - 1)"

definition MakeDate :: "int \<Rightarrow> int \<Rightarrow> int" where
  "MakeDate day time = day * msPerDay + time"

definition LocalTime :: "int \<Rightarrow> int \<Rightarrow> int" where
  "LocalTime tz t = t + tz"

definition UTC :: "int \<Rightarrow> int \<Rightarrow> int" where
  "UTC tz t = t - tz"

text \<open>The methods of \<^verbatim>\<open>Date.prototype\<close> the program calls; a setter returns the new time value.\<close>

definition getDate :: "int \<Rightarrow> int \<Rightarrow> int" where
  "getDate tz t = DateFromTime (LocalTime tz t)"

definition getDay :: "int \<Rightarrow> int \<Rightarrow> int" where
  "getDay tz t = WeekDay (LocalTime tz t)"





definition setDate :: "int \<Rightarrow> int \<Rightarrow> int \<Rightarrow> int" where
  "setDate tz t dt =
     (let lt = LocalTime tz t
      in UTC tz (MakeDate (MakeDay (YearFromTime lt) (MonthFromTime lt) dt) (TimeWithinDay lt)))"

definition setHours :: "int \<Rightarrow> int \<Rightarrow> int \<Rightarrow> int \<Rightarrow> int \<Rightarrow> int \<Rightarrow> int" where
  "setHours tz t h m s ms =
     UTC tz (MakeDate (Day (LocalTime tz t)) (MakeTime h m s ms))"

section \<open>CadencePlanner: nextScheduleTimes\<close>

record cadence =
  weekdays :: "jsval list"
  hour :: "int option"
  minute :: "int option"

text \<open>
  \<^verbatim>\<open>cadence.hour ?? 10\<close> and \<^verbatim>\<open>cadence.minute ?? 0\<close>: \<open>None\<close> is a field that is
  \<^verbatim>\<open>null\<close> or missing.
\<close>

definition cadenceHour :: "cadence \<Rightarrow> int" where
  "cadenceHour c = (case hour c of None \<Rightarrow> 10 | Some h \<Rightarrow> h)"

definition cadenceMinute :: "cadence \<Rightarrow> int" where
  "cadenceMinute c = (case minute c of None \<Rightarrow> 0 | Some m \<Rightarrow> m)"

text \<open>
  The loop of \<^verbatim>\<open>nextScheduleTimes\<close>, with \<open>i\<close> and \<open>tms\<close> (the array \<^verbatim>\<open>times\<close>) its
  variables and \<open>now\<close> the value of \<^verbatim>\<open>new Date()\<close>. \<^verbatim>\<open>includes\<close> compares with
  SameValueZero, so an element of the weekday array matches when it is the number
  \<open>weekday\<close>. \<open>count\<close> is a natural number: the one caller passes
  \<^verbatim>\<open>Math.max(1, items.length)\<close>.
\<close>

function nextScheduleTimes_loop ::
  "int \<Rightarrow> int \<Rightarrow> cadence \<Rightarrow> nat \<Rightarrow> nat \<Rightarrow> int list \<Rightarrow> int list" where
  "nextScheduleTimes_loop tz now c count i tms =
     (if i < 30 \<and> length tms < count then
        (let d = setDate tz now (getDate tz now + int i);
             weekday = ((getDay tz d + 6) mod 7) + 1
         in if JNum (of_int weekday) \<in> set (weekdays c) then
              (let d' = setHours tz d (cadenceHour c) (cadenceMinute c) 0 0
               in nextScheduleTimes_loop tz now c count (Suc i)
                    (if d' > now then tms @ [d'] else tms))
            else nextScheduleTimes_loop tz now c count (Suc i) tms)
      else tms)"
  by pat_completeness auto
termination
  by (relation "measure (\<lambda>(tz, now, c, count, i, tms). 30 - i)") auto

declare nextScheduleTimes_loop.simps [simp del]

definition nextScheduleTimes :: "int \<Rightarrow> int \<Rightarrow> cadence \<Rightarrow> nat \<Rightarrow> int list" where
  "nextScheduleTimes tz now c count = nextScheduleTimes_loop tz now c count 0 []"


section \<open>WeightedSelector: pickWeighted\<close>

record weighted_item =
  key :: jsstring
  label :: jsstring
  weight :: "real option"

text \<open>\<^verbatim>\<open>(it.weight||0)\<close>: a missing weight counts as 0.\<close>

definition itemWeight :: "weighted_item \<Rightarrow> real" where
  "itemWeight it = (case weight it of None \<Rightarrow> 0 | Some w \<Rightarrow> w)"

text \<open>\<^verbatim>\<open>items.reduce((a,b)=>a+(b.weight||0),0) || 1\<close>\<close>

definition totalWeight :: "weighted_item list \<Rightarrow> real" where
  "totalWeight items =
     (let s = foldl (\<lambda>a b. a + itemWeight b) 0 items in if s = 0 then 1 else s)"

text \<open>
  The \<^verbatim>\<open>for\<close> loop of \<^verbatim>\<open>pickWeighted\<close> with its running remainder \<open>n\<close>; \<open>None\<close> when the
  loop ends without returning.
\<close>

fun pickWeighted_loop :: "real \<Rightarrow> weighted_item list \<Rightarrow> weighted_item option" where
  "pickWeighted_loop n [] = None"
| "pickWeighted_loop n (it # its) =
     (let n' = n - itemWeight it in if n' \<le> 0 then Some it else pickWeighted_loop n' its)"

text \<open>
  \<open>r\<close> is the value of \<^verbatim>\<open>Math.random()\<close>, a number in \<open>[0, 1)\<close>; the draw is
  \<open>r * total\<close>. The result \<open>None\<close> is \<^verbatim>\<open>undefined\<close>: \<^verbatim>\<open>items[0]\<close> of an empty array.
  Weights and the draw are real numbers here.
\<close>

definition pickWeighted :: "real \<Rightarrow> weighted_item list \<Rightarrow> weighted_item option" where
  "pickWeighted r items =
     (let total = totalWeight items; n = r * total
      in case pickWeighted_loop n items of
           Some it \<Rightarrow> Some it
         | None \<Rightarrow> (case items of [] \<Rightarrow> None | x # _ \<Rightarrow> Some x))"

section \<open>The store\<close>

text \<open>
  The two SQLite tables, each a list of rows in insertion order. Columns that hold JSON
  text are modelled by the value the program reads back with \<^verbatim>\<open>JSON.parse\<close>, typed as the
  program uses it; a time stamp column holds a time value (the ISO string of a Date), and
  a column that may be \<^verbatim>\<open>NULL\<close> is an option. Of a brand's settings only the two the
  control flow depends on are kept (the others are text for the generator's brief).
\<close>

record post_meta =
  pillarKey :: "jsval option"
  pillarLabel :: "jsval option"
  formatKey :: "jsval option"

record post =
  post_id :: jsstring
  post_brand :: jsstring
  post_text :: jsstring
  status :: jsstring
  platformTargets :: "jsstring list"
  createdAt :: "int option"
  scheduledAt :: "int option"
  publishedAt :: "int option"
  postMeta :: post_meta

record settings =
  s_pillars :: "weighted_item list option"
  s_formats :: "weighted_item list option"

record brand =
  brand_id :: jsstring
  name :: jsstring
  voice :: jsstring
  pillars :: "jsstring list"
  brand_cadence :: cadence
  platforms :: "jsstring list"
  brand_settings :: settings

record store =
  brands :: "brand list"
  posts :: "post list"

datatype error =
    BrandNotFound
  | TypeError
  | GenerationFailure jsstring
  | SqliteConstraint
  | PublishFailure jsstring

text \<open>\<^verbatim>\<open>SELECT * FROM brands WHERE id=?\<close> and \<^verbatim>\<open>SELECT * FROM posts WHERE id=?\<close> with \<^verbatim>\<open>.get\<close>.\<close>

definition find_brand :: "store \<Rightarrow> jsstring \<Rightarrow> brand option" where
  "find_brand s bid = find (\<lambda>b. brand_id b = bid) (brands s)"

definition find_post :: "store \<Rightarrow> jsstring \<Rightarrow> post option" where
  "find_post s pid = find (\<lambda>p. post_id p = pid) (posts s)"

text \<open>\<^verbatim>\<open>UPDATE posts SET ... WHERE id=?\<close>: the columns set are the record update \<open>f\<close>.\<close>

definition update_post :: "(post \<Rightarrow> post) \<Rightarrow> jsstring \<Rightarrow> store \<Rightarrow> store" where
  "update_post f pid s = s\<lparr>posts := map (\<lambda>q. if post_id q = pid then f q else q) (posts s)\<rparr>"

text \<open>\<^verbatim>\<open>INSERT INTO posts\<close>: the id is the primary key, a second row with it is refused.\<close>

definition insert_post :: "post \<Rightarrow> post list \<Rightarrow> error + post list" where
  "insert_post p rows =
     (if post_id p \<in> set (map post_id rows) then Inl SqliteConstraint else Inr (rows @ [p]))"

section \<open>DraftComposer: generatePostsForBrand\<close>

text \<open>
  What the function takes from outside: the time zone offset and the clock, the values
  \<^verbatim>\<open>Math.random()\<close> returns in the order of the calls that select pillars and formats,
  the ids \<^verbatim>\<open>uid()\<close> returns in the order of the drafts, and \<^verbatim>\<open>JSON.parse\<close>
  (\<open>None\<close> when it throws a SyntaxError).
\<close>

record env =
  env_tz :: int
  env_now :: int
  env_rnd :: "nat \<Rightarrow> real"
  env_uid :: "nat \<Rightarrow> jsstring"
  env_JSON_parse :: "jsstring \<Rightarrow> jsval option"

text \<open>
  The one call of the ContentGenerator (\<^verbatim>\<open>await client.chat.completions.create\<close>): it
  throws, or it returns a response whose \<^verbatim>\<open>choices[0].message.content\<close> is a string.
\<close>

datatype gen_outcome = GenThrows jsstring | GenReturns jsstring

definition defaultFormats :: "weighted_item list" where
  "defaultFormats =
     [\<lparr>key = str ''thought_insight'', label = str ''Thought-provoking insight'', weight = Some 30\<rparr>,
      \<lparr>key = str ''news_linked'', label = str ''News-referenced insight'', weight = Some 30\<rparr>,
      \<lparr>key = str ''mini_story'', label = str ''Mini story + lesson'', weight = Some 20\<rparr>,
      \<lparr>key = str ''myth_truth'', label = str ''Myth vs truth'', weight = Some 5\<rparr>,
      \<lparr>key = str ''opinion'', label = str ''Opinion/stance'', weight = Some 5\<rparr>,
      \<lparr>key = str ''question'', label = str ''Question to spark comments'', weight = Some 5\<rparr>,
      \<lparr>key = str ''announcement'', label = str ''Announcement'', weight = Some 5\<rparr>]"

text \<open>
  \<^verbatim>\<open>p.toLowerCase().replace(/[^a-z0-9]+/g,'_')\<close>. Lower-casing maps \<open>A\<close> to \<open>Z\<close> onto
  \<open>a\<close> to \<open>z\<close>; of the code units outside ASCII only the Kelvin sign (to \<open>k\<close>) and the
  dotted capital I (to \<open>i\<close> and a combining dot) reach ASCII, and every other one stays
  outside \<open>[a-z0-9]\<close>, where the replacement turns it into \<open>_\<close> whatever it is. Each run of
  code units outside \<open>[a-z0-9]\<close> becomes one \<open>_\<close>.
\<close>

definition lowerUnit :: "16 word \<Rightarrow> jsstring" where
  "lowerUnit c =
     (if 0x41 \<le> c \<and> c \<le> 0x5A then [c + 0x20]
      else if c = 0x212A then [0x6B]
      else if c = 0x130 then [0x69, 0x307]
      else [c])"

definition toLowerCase :: "jsstring \<Rightarrow> jsstring" where
  "toLowerCase s = concat (map lowerUnit s)"

definition isLowerAlnum :: "16 word \<Rightarrow> bool" where
  "isLowerAlnum c \<longleftrightarrow> (0x61 \<le> c \<and> c \<le> 0x7A) \<or> (0x30 \<le> c \<and> c \<le> 0x39)"

fun replaceRuns :: "bool \<Rightarrow> jsstring \<Rightarrow> jsstring" where
  "replaceRuns inRun [] = []"
| "replaceRuns inRun (c # cs) =
     (if isLowerAlnum c then c # replaceRuns False cs
      else if inRun then replaceRuns True cs
      else 0x5F # replaceRuns True cs)"

definition pillarKeyOf :: "jsstring \<Rightarrow> jsstring" where
  "pillarKeyOf p = replaceRuns False (toLowerCase p)"

text \<open>\<^verbatim>\<open>s.pillars || brand.pillars.map(...)\<close> and \<^verbatim>\<open>s.formats || [...]\<close>.\<close>

definition brandPillars :: "brand \<Rightarrow> weighted_item list" where
  "brandPillars b =
     (case s_pillars (brand_settings b) of
        Some ps \<Rightarrow> ps
      | None \<Rightarrow>
          map (\<lambda>p. \<lparr>key = pillarKeyOf p, label = p,
                     weight = Some (of_int (round (100 / real (max 1 (length (pillars b))))))\<rparr>)
              (pillars b))"

definition brandFormats :: "brand \<Rightarrow> weighted_item list" where
  "brandFormats b = (case s_formats (brand_settings b) of Some fs \<Rightarrow> fs | None \<Rightarrow> defaultFormats)"

text \<open>
  \<^verbatim>\<open>Array.from({length:count}).map(...)\<close>: for each draft one draw for the pillar, then one
  for the format.
\<close>

definition selections ::
  "(nat \<Rightarrow> real) \<Rightarrow> weighted_item list \<Rightarrow> weighted_item list \<Rightarrow> nat \<Rightarrow>
   (weighted_item option \<times> weighted_item option) list" where
  "selections rnd ps fs count =
     map (\<lambda>i. (pickWeighted (rnd (2 * i)) ps, pickWeighted (rnd (2 * i + 1)) fs)) [0..<count]"

text \<open>
  The brief reads \<^verbatim>\<open>s.pillar.label\<close> and \<^verbatim>\<open>s.format.label\<close> of every selection: a
  selection that is \<^verbatim>\<open>undefined\<close> makes it throw a TypeError.
\<close>

fun definedSelections ::
  "(weighted_item option \<times> weighted_item option) list \<Rightarrow> (weighted_item \<times> weighted_item) list option" where
  "definedSelections [] = Some []"
| "definedSelections ((Some p, Some f) # xs) = map_option (\<lambda>ys. (p, f) # ys) (definedSelections xs)"
| "definedSelections (_ # xs) = None"

text \<open>
  The part of \<^verbatim>\<open>generatePostsForBrand\<close> before the generator is called: the brand is
  looked up, the selections are drawn and the brief is built (its text goes to the
  generator and is not modelled).
\<close>

definition prepare ::
  "env \<Rightarrow> store \<Rightarrow> jsstring \<Rightarrow> nat \<Rightarrow> error + (brand \<times> (weighted_item \<times> weighted_item) list)" where
  "prepare env s brandId count =
     (case find_brand s brandId of
        None \<Rightarrow> Inl BrandNotFound
      | Some b \<Rightarrow>
          (case definedSelections (selections (env_rnd env) (brandPillars b) (brandFormats b) count) of
             None \<Rightarrow> Inl TypeError
           | Some sel \<Rightarrow> Inr (b, sel)))"

text \<open>
  Reading a property: of \<^verbatim>\<open>null\<close> it throws a TypeError, of an object it is the member
  or \<^verbatim>\<open>undefined\<close>, and of any other value it is \<^verbatim>\<open>undefined\<close> for the names the program
  reads (\<open>posts\<close>, \<open>text\<close>, \<open>pillarKey\<close>, \<open>pillarLabel\<close>, \<open>formatKey\<close>).
\<close>

fun getProp :: "jsval \<Rightarrow> jsstring \<Rightarrow> error + jsval option" where
  "getProp JNull k = Inl TypeError"
| "getProp (JObj kvs) k = Inr (map_of kvs k)"
| "getProp _ k = Inr None"

text \<open>
  \<^verbatim>\<open>try { const obj = JSON.parse(content); items = obj.posts || [] } catch(err) { items = [] }\<close>
\<close>

definition parse_items :: "(jsstring \<Rightarrow> jsval option) \<Rightarrow> jsstring \<Rightarrow> jsval" where
  "parse_items parse content =
     (case parse content of
        None \<Rightarrow> JArr []
      | Some obj \<Rightarrow>
          (case getProp obj (str ''posts'') of
             Inl e \<Rightarrow> JArr []
           | Inr None \<Rightarrow> JArr []
           | Inr (Some v) \<Rightarrow> if truthy v then v else JArr []))"

text \<open>
  \<^verbatim>\<open>.replace(/./g,'-')\<close> where the character of the pattern is the em dash, the code unit
  U+2014: every em dash becomes a hyphen-minus.
\<close>

definition EM_DASH :: "16 word" where "EM_DASH = 0x2014"

definition HYPHEN :: "16 word" where "HYPHEN = 0x2D"

definition replaceEmDash :: "jsstring \<Rightarrow> jsstring" where
  "replaceEmDash s = map (\<lambda>c. if c = EM_DASH then HYPHEN else c) s"

text \<open>
  \<^verbatim>\<open>(it.text||'').replace(...)\<close> for the value \<open>v\<close> of \<^verbatim>\<open>it.text\<close>: a truthy value that is
  not a string has no \<^verbatim>\<open>replace\<close> method, and calling it throws a TypeError.
\<close>

fun draftText :: "jsval option \<Rightarrow> error + jsstring" where
  "draftText None = Inr (replaceEmDash [])"
| "draftText (Some (JStr t)) = Inr (replaceEmDash t)"
| "draftText (Some v) = (if truthy v then Inl TypeError else Inr (replaceEmDash []))"

text \<open>\<^verbatim>\<open>it.pillarKey || fallback\<close>, for an item \<open>it\<close> that is not \<^verbatim>\<open>null\<close>.\<close>

definition propOr :: "jsval \<Rightarrow> jsstring \<Rightarrow> jsval option \<Rightarrow> jsval option" where
  "propOr it k fallback =
     (case getProp it k of
        Inr (Some v) \<Rightarrow> if truthy v then Some v else fallback
      | _ \<Rightarrow> fallback)"

text \<open>
  The callback of \<^verbatim>\<open>items.map\<close>, item \<open>i\<close> onwards, over the rows of the posts table: the
  draft is built, inserted and returned. An exception ends the loop and leaves the rows
  inserted so far in the table.
\<close>

fun createPosts ::
  "env \<Rightarrow> brand \<Rightarrow> int list \<Rightarrow> (weighted_item \<times> weighted_item) list \<Rightarrow> jsval list \<Rightarrow> nat \<Rightarrow>
   post list \<Rightarrow> (error + post list) \<times> post list" where
  "createPosts env b tms sel [] i rows = (Inr [], rows)"
| "createPosts env b tms sel (it # its) i rows =
     (case getProp it (str ''text'') of
        Inl e \<Rightarrow> (Inl e, rows)
      | Inr v \<Rightarrow>
          (case draftText v of
             Inl e \<Rightarrow> (Inl e, rows)
           | Inr t \<Rightarrow>
               (let p = \<lparr>post_id = env_uid env i,
                         post_brand = brand_id b,
                         post_text = t,
                         status = str ''draft'',
                         platformTargets = platforms b,
                         createdAt = Some (env_now env),
                         scheduledAt = (if i < length tms then Some (tms ! i) else None),
                         publishedAt = None,
                         postMeta =
                           \<lparr>pillarKey = propOr it (str ''pillarKey'')
                              (if i < length sel then Some (JStr (key (fst (sel ! i)))) else None),
                            pillarLabel = propOr it (str ''pillarLabel'')
                              (if i < length sel then Some (JStr (label (fst (sel ! i)))) else None),
                            formatKey = propOr it (str ''formatKey'')
                              (if i < length sel then Some (JStr (key (snd (sel ! i)))) else None)\<rparr>\<rparr>
                in case insert_post p rows of
                     Inl e \<Rightarrow> (Inl e, rows)
                   | Inr rows' \<Rightarrow>
                       (case createPosts env b tms sel its (Suc i) rows' of
                          (Inl e, rows'') \<Rightarrow> (Inl e, rows'')
                        | (Inr ps, rows'') \<Rightarrow> (Inr (p # ps), rows'')))))"

text \<open>
  \<^verbatim>\<open>generatePostsForBrand(brandId, count)\<close> on the store \<open>s\<close>, with \<open>gen\<close> what the
  generator does when called: the result or the exception, and the store afterwards.
  \<^verbatim>\<open>brand.platforms || ['linkedin']\<close> is \<^verbatim>\<open>brand.platforms\<close>, an array being truthy. When
  \<^verbatim>\<open>items\<close> is not an array, \<^verbatim>\<open>items.map\<close> is not a function and the call throws before
  any insert.
\<close>

definition generatePostsForBrand ::
  "env \<Rightarrow> gen_outcome \<Rightarrow> store \<Rightarrow> jsstring \<Rightarrow> nat \<Rightarrow> (error + post list) \<times> store" where
  "generatePostsForBrand env gen s brandId count =
     (case prepare env s brandId count of
        Inl e \<Rightarrow> (Inl e, s)
      | Inr (b, sel) \<Rightarrow>
          (case gen of
             GenThrows msg \<Rightarrow> (Inl (GenerationFailure msg), s)
           | GenReturns content \<Rightarrow>
               (case parse_items (env_JSON_parse env) content of
                  JArr items \<Rightarrow>
                    (let tms = nextScheduleTimes (env_tz env) (env_now env) (brand_cadence b)
                                 (max 1 (length items));
                         (r, rows) = createPosts env b tms sel items 0 (posts s)
                     in (r, s\<lparr>posts := rows\<rparr>))
                | _ \<Rightarrow> (Inl TypeError, s))))"

section \<open>Publisher and PostLifecycle\<close>

record publish_result =
  ok :: bool
  url :: "jsstring option"

text \<open>The publisher of the repository: it logs the post and reports success.\<close>

definition publishToLinkedIn :: "post \<Rightarrow> error + publish_result" where
  "publishToLinkedIn p =
     Inr \<lparr>ok = True, url = Some (str ''https://www.linkedin.com/feed/update/mock'')\<rparr>"

text \<open>
  \<^verbatim>\<open>publishPost\<close>. The LinkedIn publisher is the parameter \<open>pub\<close>, so that a publisher
  that throws or reports \<open>ok = False\<close> can be stated; the program's own is
  \<open>publishToLinkedIn\<close>. A target other than \<^verbatim>\<open>'linkedin'\<close> is passed over.
\<close>

fun publishPost_loop ::
  "(post \<Rightarrow> error + publish_result) \<Rightarrow> post \<Rightarrow> jsstring list \<Rightarrow> publish_result list \<Rightarrow>
   error + publish_result list" where
  "publishPost_loop pub p [] results = Inr results"
| "publishPost_loop pub p (platform # targets) results =
     (if platform = str ''linkedin'' then
        (case pub p of
           Inl e \<Rightarrow> Inl e
         | Inr r \<Rightarrow> publishPost_loop pub p targets (results @ [r]))
      else publishPost_loop pub p targets results)"

definition publishPost :: "(post \<Rightarrow> error + publish_result) \<Rightarrow> post \<Rightarrow> error + publish_result list" where
  "publishPost pub p = publishPost_loop pub p (platformTargets p) []"

text \<open>What a route answers: the status code and what the claims read of the body.\<close>

datatype response =
    RespOk
  | RespResults "publish_result list"
  | RespPost post
  | RespBrand brand
  | RespError nat

text \<open>\<^verbatim>\<open>POST /posts/:id/approve\<close>\<close>

definition approve_route :: "store \<Rightarrow> jsstring \<Rightarrow> response \<times> store" where
  "approve_route s pid =
     (case find_post s pid of
        None \<Rightarrow> (RespError 404, s)
      | Some p \<Rightarrow> (RespOk, update_post (\<lambda>q. q\<lparr>status := str ''approved''\<rparr>) (post_id p) s))"

text \<open>
  \<^verbatim>\<open>POST /posts/:id/publish\<close>, at the instant \<open>now\<close> (the value of \<^verbatim>\<open>iso()\<close>). The row is
  published when \<^verbatim>\<open>publishPost\<close> returns and failed when it throws; the results are
  sent back and not looked at.
\<close>

definition publish_route ::
  "(post \<Rightarrow> error + publish_result) \<Rightarrow> int \<Rightarrow> store \<Rightarrow> jsstring \<Rightarrow> response \<times> store" where
  "publish_route pub now s pid =
     (case find_post s pid of
        None \<Rightarrow> (RespError 404, s)
      | Some p \<Rightarrow>
          (case publishPost pub p of
             Inr results \<Rightarrow>
               (RespResults results,
                update_post (\<lambda>q. q\<lparr>status := str ''published'', publishedAt := Some now\<rparr>) (post_id p) s)
           | Inl e \<Rightarrow>
               (RespError 500, update_post (\<lambda>q. q\<lparr>status := str ''failed''\<rparr>) (post_id p) s)))"



text \<open>
  The scheduler's tick at the instant \<open>now\<close>: the rows selected by
  \<^verbatim>\<open>status='approved' AND scheduledAt IS NOT NULL\<close> are read once, then handled one after
  the other. \<^verbatim>\<open>new Date(null)\<close> is the epoch.
\<close>

definition due_rows :: "store \<Rightarrow> post list" where
  "due_rows s = filter (\<lambda>p. status p = str ''approved'' \<and> scheduledAt p \<noteq> None) (posts s)"

fun sweep_loop ::
  "(post \<Rightarrow> error + publish_result) \<Rightarrow> int \<Rightarrow> post list \<Rightarrow> store \<Rightarrow> store" where
  "sweep_loop pub now [] s = s"
| "sweep_loop pub now (p # due) s =
     sweep_loop pub now due
       (if (case scheduledAt p of None \<Rightarrow> 0 | Some t \<Rightarrow> t) \<le> now then
          (case publishPost pub p of
             Inr results \<Rightarrow>
               update_post (\<lambda>q. q\<lparr>status := str ''published'', publishedAt := Some now\<rparr>) (post_id p) s
           | Inl e \<Rightarrow> update_post (\<lambda>q. q\<lparr>status := str ''failed''\<rparr>) (post_id p) s)
        else s)"

definition cron_tick :: "(post \<Rightarrow> error + publish_result) \<Rightarrow> int \<Rightarrow> store \<Rightarrow> store" where
  "cron_tick pub now s = sweep_loop pub now (due_rows s) s"

section \<open>Brand routes\<close>

text \<open>
  The body of \<^verbatim>\<open>POST /brands\<close>. The fields of \<open>cadence\<close> are JSON values, the route
  testing them with \<^verbatim>\<open>Array.isArray\<close> and \<^verbatim>\<open>Number.isInteger\<close>; a field that is missing
  is \<open>None\<close>. The other fields are taken well-typed (\<open>None\<close>: missing, or not of the type
  the route tests for).
\<close>

record cadence_req =
  req_weekdays :: "jsval option"
  req_hour :: "jsval option"
  req_minute :: "jsval option"

record brand_req =
  req_id :: "jsstring option"
  req_name :: "jsstring option"
  req_voice :: "jsstring option"
  req_pillars :: "jsstring list option"
  req_cadence :: "cadence_req option"
  req_platforms :: "jsstring list option"
  req_settings :: "settings option"

text \<open>The integer a number checked by \<^verbatim>\<open>Number.isInteger\<close> is.\<close>

fun intOf :: "jsval option \<Rightarrow> int" where
  "intOf (Some (JNum r)) = \<lfloor>r\<rfloor>"
| "intOf _ = 0"

text \<open>
  \<^verbatim>\<open>(cadence?.weekdays && Array.isArray(cadence.weekdays)) ? cadence.weekdays : [2,5]\<close>,
  \<^verbatim>\<open>Number.isInteger(cadence?.hour) ? cadence.hour : 10\<close> and
  \<^verbatim>\<open>Number.isInteger(cadence?.minute) ? cadence.minute : 0\<close>
\<close>

definition created_cadence :: "cadence_req option \<Rightarrow> cadence" where
  "created_cadence c =
     \<lparr>weekdays =
        (case (case c of None \<Rightarrow> None | Some cr \<Rightarrow> req_weekdays cr) of
           Some (JArr ws) \<Rightarrow> ws
         | _ \<Rightarrow> [JNum 2, JNum 5]),
      hour =
        (let h = (case c of None \<Rightarrow> None | Some cr \<Rightarrow> req_hour cr)
         in if isInteger h then Some (intOf h) else Some 10),
      minute =
        (let m = (case c of None \<Rightarrow> None | Some cr \<Rightarrow> req_minute cr)
         in if isInteger m then Some (intOf m) else Some 0)\<rparr>"

text \<open>\<^verbatim>\<open>POST /brands\<close>: 400 without an id or a name, or when the id is taken.\<close>

definition create_brand_route :: "store \<Rightarrow> brand_req \<Rightarrow> response \<times> store" where
  "create_brand_route s body =
     (case (req_id body, req_name body) of
        (Some bid, Some nm) \<Rightarrow>
          (if bid = [] \<or> nm = [] then (RespError 400, s)
           else if find_brand s bid \<noteq> None then (RespError 400, s)
           else
             (RespOk,
              s\<lparr>brands := brands s @
                   [\<lparr>brand_id = bid,
                     name = nm,
                     voice = (case req_voice body of None \<Rightarrow> [] | Some v \<Rightarrow> v),
                     pillars = (case req_pillars body of None \<Rightarrow> [] | Some ps \<Rightarrow> ps),
                     brand_cadence = created_cadence (req_cadence body),
                     platforms = (case req_platforms body of None \<Rightarrow> [str ''linkedin''] | Some pl \<Rightarrow> pl),
                     brand_settings =
                       (case req_settings body of
                          None \<Rightarrow> \<lparr>s_pillars = None, s_formats = None\<rparr>
                        | Some st \<Rightarrow> st)\<rparr>]\<rparr>))
      | _ \<Rightarrow> (RespError 400, s))"

text \<open>
  The body of \<^verbatim>\<open>PATCH /brands/:id\<close>. The route takes \<open>cadence.weekdays\<close> as it comes when
  it is not \<^verbatim>\<open>null\<close> or missing; here it is an array. The hour and the minute are JSON
  values, tested with \<^verbatim>\<open>Number.isInteger\<close>.
\<close>

record cadence_patch =
  cp_weekdays :: "jsval list option"
  cp_hour :: "jsval option"
  cp_minute :: "jsval option"

record brand_patch =
  bp_voice :: "jsstring option"
  bp_pillars :: "jsstring list option"
  bp_cadence :: "cadence_patch option"
  bp_platforms :: "jsstring list option"
  bp_settings :: "settings option"

text \<open>
  \<^verbatim>\<open>const c = req.body.cadence ?? current.cadence\<close> and the three columns computed from
  \<open>c\<close>; without a cadence in the body, \<open>c\<close> is the stored cadence and the columns keep
  their values.
\<close>

definition patched_cadence :: "cadence \<Rightarrow> cadence_patch option \<Rightarrow> cadence" where
  "patched_cadence cur c =
     (case c of
        None \<Rightarrow> cur
      | Some cp \<Rightarrow>
          \<lparr>weekdays = (case cp_weekdays cp of None \<Rightarrow> weekdays cur | Some ws \<Rightarrow> ws),
           hour = (if isInteger (cp_hour cp) then Some (intOf (cp_hour cp)) else hour cur),
           minute = (if isInteger (cp_minute cp) then Some (intOf (cp_minute cp)) else minute cur)\<rparr>)"

definition patch_brand_route :: "store \<Rightarrow> jsstring \<Rightarrow> brand_patch \<Rightarrow> response \<times> store" where
  "patch_brand_route s bid body =
     (case find_brand s bid of
        None \<Rightarrow> (RespError 404, s)
      | Some cur \<Rightarrow>
          (let upd = (\<lambda>b. b\<lparr>voice := (case bp_voice body of None \<Rightarrow> voice cur | Some v \<Rightarrow> v),
                              pillars := (case bp_pillars body of None \<Rightarrow> pillars cur | Some ps \<Rightarrow> ps),
                              brand_cadence := patched_cadence (brand_cadence cur) (bp_cadence body),
                              platforms := (case bp_platforms body of None \<Rightarrow> platforms cur | Some pl \<Rightarrow> pl),
                              brand_settings :=
                                (case bp_settings body of None \<Rightarrow> brand_settings cur | Some st \<Rightarrow> st)\<rparr>);
               s' = s\<lparr>brands := map (\<lambda>b. if brand_id b = brand_id cur then upd b else b) (brands s)\<rparr>
           in (case find_brand s' (brand_id cur) of
                 None \<Rightarrow> (RespError 500, s')
               | Some b' \<Rightarrow> (RespBrand b', s'))))"

text \<open>The invariant the data model states for a cadence.\<close>

fun validWeekday :: "jsval \<Rightarrow> bool" where
  "validWeekday (JNum r) = (r = 1 \<or> r = 2 \<or> r = 3 \<or> r = 4 \<or> r = 5 \<or> r = 6 \<or> r = 7)"
| "validWeekday _ = False"

definition cadence_valid :: "cadence \<Rightarrow> bool" where
  "cadence_valid c \<longleftrightarrow>
     list_all validWeekday (weekdays c) \<and>
     0 \<le> cadenceHour c \<and> cadenceHour c \<le> 23 \<and>
     0 \<le> cadenceMinute c \<and> cadenceMinute c \<le> 59"

section \<open>Predicates used in the statements\<close>


text \<open>
  Between two states of the posts table, row by row: a post that is published afterwards
  was published or approved before.
\<close>

definition only_from_approved :: "store \<Rightarrow> store \<Rightarrow> bool" where
  "only_from_approved s s' \<longleftrightarrow>
     list_all2 (\<lambda>q q'. post_id q' = post_id q \<and>
                  (status q' = str ''published'' \<longrightarrow>
                     status q = str ''published'' \<or> status q = str ''approved''))
       (posts s) (posts s')"

text \<open>
  Row by row: the id is kept, and a status that changed was \<open>approved\<close> before.
\<close>

definition status_step :: "post list \<Rightarrow> post list \<Rightarrow> bool" where
  "status_step xs ys \<longleftrightarrow>
     list_all2 (\<lambda>q q'. post_id q' = post_id q \<and>
                  (status q' = status q \<or> status q = str ''approved'')) xs ys"


section \<open>Example data\<close>

text \<open>A stored post that has been published, and stores and requests built around it.\<close>

definition demo_post :: post where
  "demo_post = \<lparr>post_id = str ''p1'', post_brand = str ''b1'', post_text = str ''hello'',
     status = str ''published'', platformTargets = [str ''linkedin''], createdAt = Some 0,
     scheduledAt = Some 10, publishedAt = Some 20,
     postMeta = \<lparr>pillarKey = None, pillarLabel = None, formatKey = None\<rparr>\<rparr>"




text \<open>
  A body for \<^verbatim>\<open>POST /brands\<close> whose cadence has weekday 9, hour 99 and minute -5, and
  the brand it creates.
\<close>

definition demo_brand_req :: brand_req where
  "demo_brand_req =
     \<lparr>req_id = Some (str ''b1''), req_name = Some (str ''Acme''), req_voice = None,
      req_pillars = None,
      req_cadence = Some \<lparr>req_weekdays = Some (JArr [JNum 9]), req_hour = Some (JNum 99),
                          req_minute = Some (JNum (- 5))\<rparr>,
      req_platforms = None, req_settings = None\<rparr>"

definition demo_brand :: brand where
  "demo_brand =
     \<lparr>brand_id = str ''b1'', name = str ''Acme'', voice = [], pillars = [],
      brand_cadence = \<lparr>weekdays = [JNum 9], hour = Some 99, minute = Some (- 5)\<rparr>,
      platforms = [str ''linkedin''],
      brand_settings = \<lparr>s_pillars = None, s_formats = None\<rparr>\<rparr>"

text \<open>
  A body for \<^verbatim>\<open>PATCH /brands/:id\<close> whose cadence has a string for the hour and 30 for the
  minute.
\<close>

definition demo_brand_patch :: brand_patch where
  "demo_brand_patch =
     \<lparr>bp_voice = None, bp_pillars = None,
      bp_cadence = Some \<lparr>cp_weekdays = None, cp_hour = Some (JStr (str ''ten'')),
                         cp_minute = Some (JNum 30)\<rparr>,
      bp_platforms = None, bp_settings = None\<rparr>"


definition approved_linkedin :: post where
  "approved_linkedin = \<lparr>post_id = str ''p3'', post_brand = str ''b1'', post_text = str ''hello'',
     status = str ''approved'', platformTargets = [str ''linkedin''], createdAt = Some 0,
     scheduledAt = Some 10, publishedAt = None,
     postMeta = \<lparr>pillarKey = None, pillarLabel = None, formatKey = None\<rparr>\<rparr>"

definition draft_post :: post where
  "draft_post = \<lparr>post_id = str ''p4'', post_brand = str ''b1'', post_text = str ''hello'',
     status = str ''draft'', platformTargets = [str ''linkedin''], createdAt = Some 0,
     scheduledAt = Some 10, publishedAt = None,
     postMeta = \<lparr>pillarKey = None, pillarLabel = None, formatKey = None\<rparr>\<rparr>"



text \<open>
  A brand with one pillar and no settings, a store holding it, and an environment: the
  clock at Monday 1 January 2024, 09:00 UTC, every random draw 1/2, and a
  \<^verbatim>\<open>JSON.parse\<close> given by its values on two contents and a SyntaxError on every other
  one: \<open>good_content\<close> (a short name for the JSON text) parses to an object with a single
  post whose text is \<open>a\<close>, an em dash, \<open>b\<close>, and \<open>{}\<close> parses to the empty object.
\<close>

definition gen_brand :: brand where
  "gen_brand =
     \<lparr>brand_id = str ''b1'', name = str ''Acme'', voice = [], pillars = [str ''Team Culture''],
      brand_cadence = \<lparr>weekdays = [JNum 2, JNum 5], hour = Some 10, minute = Some 0\<rparr>,
      platforms = [str ''linkedin''],
      brand_settings = \<lparr>s_pillars = None, s_formats = None\<rparr>\<rparr>"

definition gen_store :: store where
  "gen_store = \<lparr>brands = [gen_brand], posts = [demo_post]\<rparr>"

definition good_content :: jsstring where
  "good_content = str ''{posts:[{text}]}''"

definition demo_parse :: "jsstring \<Rightarrow> jsval option" where
  "demo_parse content =
     (if content = good_content
      then Some (JObj [(str ''posts'', JArr [JObj [(str ''text'', JStr [0x61, 0x2014, 0x62])]])])
      else if content = str ''{}'' then Some (JObj [])
      else None)"

definition gen_env :: env where
  "gen_env = \<lparr>env_tz = 0, env_now = 1704099600000, env_rnd = (\<lambda>k. 1 / 2),
               env_uid = (\<lambda>i. replicate (Suc i) 0x75), env_JSON_parse = demo_parse\<rparr>"


section \<open>Date arithmetic\<close>


















section \<open>CadencePlanner\<close>









section \<open>Rows and updates\<close>

lemma find_post_id: "find_post s pid = Some p \<Longrightarrow> post_id p = pid"
  by (auto simp: find_post_def find_Some_iff)

lemma find_map_update:
  "find (\<lambda>q. post_id q = pid) xs = Some p \<Longrightarrow> post_id (f p) = pid \<Longrightarrow>
   find (\<lambda>q. post_id q = pid) (map (\<lambda>q. if post_id q = pid then f q else q) xs) = Some (f p)"
  by (induction xs) (auto split: if_splits)

lemma find_post_update_post:
  "find_post s pid = Some p \<Longrightarrow> post_id (f p) = pid \<Longrightarrow>
   find_post (update_post f pid s) pid = Some (f p)"
  by (simp add: find_post_def update_post_def find_map_update)



lemma find_brand_append_new:
  "find_brand s bid = None \<Longrightarrow> brand_id b = bid \<Longrightarrow>
   find_brand (s\<lparr>brands := brands s @ [b]\<rparr>) bid = Some b"
proof -
  have "find P xs = None \<Longrightarrow> P b \<Longrightarrow> find P (xs @ [b]) = Some b" for P and xs :: "brand list"
    by (induction xs) (auto split: if_splits)
  then show "find_brand s bid = None \<Longrightarrow> brand_id b = bid \<Longrightarrow>
   find_brand (s\<lparr>brands := brands s @ [b]\<rparr>) bid = Some b"
    by (simp add: find_brand_def)
qed

lemma find_brand_id: "find_brand s bid = Some b \<Longrightarrow> brand_id b = bid"
  by (auto simp: find_brand_def find_Some_iff)

lemma find_brand_map_update:
  "find (\<lambda>b. brand_id b = bid) xs = Some cur \<Longrightarrow> brand_id (f cur) = bid \<Longrightarrow>
   find (\<lambda>b. brand_id b = bid) (map (\<lambda>b. if brand_id b = bid then f b else b) xs) = Some (f cur)"
  by (induction xs) (auto split: if_splits)

section \<open>WeightedSelector\<close>







section \<open>Brand cadence\<close>

text \<open>
  Claim C5, as the code has it. A brand created by \<^verbatim>\<open>POST /brands\<close> is stored with the
  weekdays of the body when they are an array and with \<open>[2, 5]\<close> otherwise, with the hour
  of the body when it is an integer and 10 otherwise, and with the minute of the body when
  it is an integer and 0 otherwise. \<^verbatim>\<open>PATCH /brands/:id\<close> stores the weekdays of the body's
  cadence when it has them, the hour and the minute when they are integers, and keeps the
  stored value otherwise. The type of a field is corrected; its range is stored as given.
\<close>

theorem stored_cadence_as_given:
  "(create_brand_route s body = (RespOk, s') \<longrightarrow>
      (\<exists>bid b. req_id body = Some bid \<and> find_brand s' bid = Some b \<and>
         weekdays (brand_cadence b) =
           (case req_cadence body of
              None \<Rightarrow> [JNum 2, JNum 5]
            | Some cr \<Rightarrow> (case req_weekdays cr of Some (JArr ws) \<Rightarrow> ws | _ \<Rightarrow> [JNum 2, JNum 5])) \<and>
         hour (brand_cadence b) =
           (case req_cadence body of
              None \<Rightarrow> Some 10
            | Some cr \<Rightarrow> if isInteger (req_hour cr) then Some (intOf (req_hour cr)) else Some 10) \<and>
         minute (brand_cadence b) =
           (case req_cadence body of
              None \<Rightarrow> Some 0
            | Some cr \<Rightarrow> if isInteger (req_minute cr) then Some (intOf (req_minute cr)) else Some 0))) \<and>
   (find_brand s1 bid' = Some cur \<longrightarrow>
      (\<exists>b. patch_brand_route s1 bid' patch = (RespBrand b, snd (patch_brand_route s1 bid' patch)) \<and>
         find_brand (snd (patch_brand_route s1 bid' patch)) bid' = Some b \<and>
         brand_cadence b =
           (case bp_cadence patch of
              None \<Rightarrow> brand_cadence cur
            | Some cp \<Rightarrow>
                \<lparr>weekdays = (case cp_weekdays cp of None \<Rightarrow> weekdays (brand_cadence cur) | Some ws \<Rightarrow> ws),
                 hour = (if isInteger (cp_hour cp) then Some (intOf (cp_hour cp))
                         else hour (brand_cadence cur)),
                 minute = (if isInteger (cp_minute cp) then Some (intOf (cp_minute cp))
                           else minute (brand_cadence cur))\<rparr>)))"
proof (intro conjI impI)
  assume c: "create_brand_route s body = (RespOk, s')"
  then obtain bid nm where ids: "req_id body = Some bid" "req_name body = Some nm"
    by (auto simp: create_brand_route_def split: option.splits)
  define b where "b = \<lparr>brand_id = bid, name = nm,
       voice = (case req_voice body of None \<Rightarrow> [] | Some v \<Rightarrow> v),
       pillars = (case req_pillars body of None \<Rightarrow> [] | Some ps \<Rightarrow> ps),
       brand_cadence = created_cadence (req_cadence body),
       platforms = (case req_platforms body of None \<Rightarrow> [str ''linkedin''] | Some pl \<Rightarrow> pl),
       brand_settings = (case req_settings body of
                          None \<Rightarrow> \<lparr>s_pillars = None, s_formats = None\<rparr>
                        | Some st \<Rightarrow> st)\<rparr>"
  from c ids have fresh: "find_brand s bid = None" and s': "s' = s\<lparr>brands := brands s @ [b]\<rparr>"
    by (auto simp: create_brand_route_def b_def split: if_splits)
  have "find_brand s' bid = Some b"
    unfolding s' using fresh by (rule find_brand_append_new) (simp add: b_def)
  moreover have "brand_cadence b = created_cadence (req_cadence body)"
    by (simp add: b_def)
  ultimately show "\<exists>bid b. req_id body = Some bid \<and> find_brand s' bid = Some b \<and>
         weekdays (brand_cadence b) =
           (case req_cadence body of
              None \<Rightarrow> [JNum 2, JNum 5]
            | Some cr \<Rightarrow> (case req_weekdays cr of Some (JArr ws) \<Rightarrow> ws | _ \<Rightarrow> [JNum 2, JNum 5])) \<and>
         hour (brand_cadence b) =
           (case req_cadence body of
              None \<Rightarrow> Some 10
            | Some cr \<Rightarrow> if isInteger (req_hour cr) then Some (intOf (req_hour cr)) else Some 10) \<and>
         minute (brand_cadence b) =
           (case req_cadence body of
              None \<Rightarrow> Some 0
            | Some cr \<Rightarrow> if isInteger (req_minute cr) then Some (intOf (req_minute cr)) else Some 0)"
    using ids(1)
    by (auto simp: created_cadence_def Let_def split: option.splits jsval.splits)
next
  assume f: "find_brand s1 bid' = Some cur"
  have i: "brand_id cur = bid'" using f by (rule find_brand_id)
  define upd where "upd = (\<lambda>b::brand. b\<lparr>voice := (case bp_voice patch of None \<Rightarrow> voice cur | Some v \<Rightarrow> v),
        pillars := (case bp_pillars patch of None \<Rightarrow> pillars cur | Some ps \<Rightarrow> ps),
        brand_cadence := patched_cadence (brand_cadence cur) (bp_cadence patch),
        platforms := (case bp_platforms patch of None \<Rightarrow> platforms cur | Some pl \<Rightarrow> pl),
        brand_settings := (case bp_settings patch of None \<Rightarrow> brand_settings cur | Some st \<Rightarrow> st)\<rparr>)"
  define s' where "s' = s1\<lparr>brands := map (\<lambda>b. if brand_id b = bid' then upd b else b) (brands s1)\<rparr>"
  have fs: "find_brand s' bid' = Some (upd cur)"
    using f i unfolding s'_def find_brand_def
    by (simp add: find_brand_map_update upd_def)
  have r: "patch_brand_route s1 bid' patch = (RespBrand (upd cur), s')"
    using f i fs by (simp add: patch_brand_route_def Let_def upd_def [symmetric] s'_def [symmetric])
  have "brand_cadence (upd cur) = patched_cadence (brand_cadence cur) (bp_cadence patch)"
    by (simp add: upd_def)
  then show "\<exists>b. patch_brand_route s1 bid' patch = (RespBrand b, snd (patch_brand_route s1 bid' patch)) \<and>
         find_brand (snd (patch_brand_route s1 bid' patch)) bid' = Some b \<and>
         brand_cadence b =
           (case bp_cadence patch of
              None \<Rightarrow> brand_cadence cur
            | Some cp \<Rightarrow>
                \<lparr>weekdays = (case cp_weekdays cp of None \<Rightarrow> weekdays (brand_cadence cur) | Some ws \<Rightarrow> ws),
                 hour = (if isInteger (cp_hour cp) then Some (intOf (cp_hour cp))
                         else hour (brand_cadence cur)),
                 minute = (if isInteger (cp_minute cp) then Some (intOf (cp_minute cp))
                           else minute (brand_cadence cur))\<rparr>)"
    using r fs by (simp add: patched_cadence_def)
qed

theorem stored_cadence_as_given_witness:
  "create_brand_route \<lparr>brands = [], posts = []\<rparr> demo_brand_req =
     (RespOk, \<lparr>brands = [demo_brand], posts = []\<rparr>) \<and>
   find_brand \<lparr>brands = [demo_brand], posts = []\<rparr> (str ''b1'') = Some demo_brand \<and>
   hour (brand_cadence demo_brand) = Some 99 \<and>
   (\<exists>b. find_brand (snd (patch_brand_route \<lparr>brands = [demo_brand], posts = []\<rparr> (str ''b1'')
                             demo_brand_patch)) (str ''b1'') = Some b \<and>
        brand_cadence b = \<lparr>weekdays = [JNum 9], hour = Some 99, minute = Some 30\<rparr>)"
proof -
  let ?s0 = "\<lparr>brands = [], posts = []\<rparr>" and ?s1 = "\<lparr>brands = [demo_brand], posts = []\<rparr>"
  note t = stored_cadence_as_given [of ?s0 demo_brand_req ?s1 ?s1 "str ''b1''" demo_brand demo_brand_patch]
  have c: "create_brand_route ?s0 demo_brand_req = (RespOk, ?s1)"
    by (simp add: create_brand_route_def demo_brand_req_def demo_brand_def created_cadence_def
        find_brand_def str_def)
  have f: "find_brand ?s1 (str ''b1'') = Some demo_brand"
    by (simp add: find_brand_def demo_brand_def)
  from t c obtain bid b where
    "req_id demo_brand_req = Some bid" "find_brand ?s1 bid = Some b"
    "hour (brand_cadence b) = Some 99"
    by (auto simp: demo_brand_req_def)
  then have h: "hour (brand_cadence demo_brand) = Some 99"
    using f by (simp add: demo_brand_req_def)
  from t f obtain b' where
    "find_brand (snd (patch_brand_route ?s1 (str ''b1'') demo_brand_patch)) (str ''b1'') = Some b'"
    "brand_cadence b' = \<lparr>weekdays = [JNum 9], hour = Some 99, minute = Some 30\<rparr>"
    by (auto simp: demo_brand_patch_def demo_brand_def)
  then show ?thesis
    using c f h by blast
qed

text \<open>
  Claim C5 as stated fails: \<^verbatim>\<open>POST /brands\<close> with weekday 9, hour 99 and minute -5 stores
  them as they come, and the stored cadence breaks the invariant.
\<close>

theorem create_brand_stores_hour_99:
  "create_brand_route \<lparr>brands = [], posts = []\<rparr> demo_brand_req =
     (RespOk, \<lparr>brands = [demo_brand], posts = []\<rparr>) \<and>
   \<not> cadence_valid (brand_cadence demo_brand) \<and>
   cadenceHour (brand_cadence demo_brand) = 99 \<and>
   cadenceMinute (brand_cadence demo_brand) = - 5 \<and>
   \<not> list_all validWeekday (weekdays (brand_cadence demo_brand))"
  by (simp add: create_brand_route_def demo_brand_req_def demo_brand_def created_cadence_def
      find_brand_def cadence_valid_def cadenceHour_def cadenceMinute_def str_def)

section \<open>PostLifecycle: publish\<close>

lemmas route_eval =
  publish_route_def publishPost_def find_post_def update_post_def publishToLinkedIn_def








section \<open>PostLifecycle: which posts become published\<close>

lemma status_step_refl: "status_step xs xs"
  by (simp add: status_step_def list_all2_same)

lemma distinct_ids_eq:
  fixes xs :: "post list"
  shows "distinct (map post_id xs) \<Longrightarrow> x \<in> set xs \<Longrightarrow> y \<in> set xs \<Longrightarrow> post_id x = post_id y \<Longrightarrow> x = y"
  by (meson distinct_map inj_on_def)

lemma status_step_update:
  assumes d: "distinct (map post_id xs)"
    and p: "p \<in> set xs" "status p = str ''approved''"
    and f: "\<And>q. post_id (f q) = post_id q"
    and st: "status_step xs (posts s)"
  shows "status_step xs (posts (update_post f (post_id p) s))"
proof -
  have "list_all2 (\<lambda>q q'. post_id (if post_id q' = post_id p then f q' else q') = post_id q \<and>
            (status (if post_id q' = post_id p then f q' else q') = status q \<or>
             status q = str ''approved'')) xs (posts s)"
    using st unfolding status_step_def
  proof (rule list.rel_mono_strong)
    fix q q' :: post
    assume q: "q \<in> set xs" and h: "post_id q' = post_id q \<and> (status q' = status q \<or> status q = str ''approved'')"
    show "post_id (if post_id q' = post_id p then f q' else q') = post_id q \<and>
            (status (if post_id q' = post_id p then f q' else q') = status q \<or>
             status q = str ''approved'')"
    proof (cases "post_id q' = post_id p")
      case True
      then have "q = p" using d q p(1) h by (intro distinct_ids_eq [of xs]) simp_all
      then show ?thesis using True h p(2) f by simp
    next
      case False
      then show ?thesis using h by simp
    qed
  qed
  then show ?thesis
    by (simp add: status_step_def update_post_def list_all2_map2)
qed

lemma sweep_loop_status_step:
  assumes d: "distinct (map post_id xs)"
  shows "\<forall>p \<in> set due. p \<in> set xs \<and> status p = str ''approved'' \<Longrightarrow>
         status_step xs (posts s) \<Longrightarrow>
         status_step xs (posts (sweep_loop pub now due s))"
proof (induction due arbitrary: s)
  case Nil
  then show ?case by simp
next
  case (Cons p due)
  have p: "p \<in> set xs" "status p = str ''approved''"
    using Cons.prems(1) by simp_all
  let ?s' = "if (case scheduledAt p of None \<Rightarrow> 0 | Some t \<Rightarrow> t) \<le> now then
          (case publishPost pub p of
             Inr results \<Rightarrow>
               update_post (\<lambda>q. q\<lparr>status := str ''published'', publishedAt := Some now\<rparr>) (post_id p) s
           | Inl e \<Rightarrow> update_post (\<lambda>q. q\<lparr>status := str ''failed''\<rparr>) (post_id p) s)
        else s"
  have "status_step xs (posts ?s')"
    using Cons.prems(2) status_step_update [OF d p _ Cons.prems(2)]
    by (auto split: sum.splits)
  then have "status_step xs (posts (sweep_loop pub now due ?s'))"
    using Cons.IH Cons.prems(1) by simp
  then show ?case by simp
qed

lemma cron_tick_status_step:
  assumes "distinct (map post_id (posts s))"
  shows "status_step (posts s) (posts (cron_tick pub now s))"
  unfolding cron_tick_def
  by (rule sweep_loop_status_step [OF assms]) (auto simp: due_rows_def status_step_refl)

lemma approve_route_posts:
  "list_all2 (\<lambda>q q'. post_id q' = post_id q \<and> (status q' = status q \<or> status q' = str ''approved''))
     (posts s) (posts (snd (approve_route s pid)))"
  by (cases "find_post s pid")
     (simp_all add: approve_route_def update_post_def list_all2_map2 list_all2_same)

lemma str_published_not_approved: "str ''published'' \<noteq> str ''approved''"
  by (simp add: str_def)

text \<open>
  Claim C2, as the code has it. In a posts table with distinct ids (the id is the primary
  key), a post that is published after the scheduler's sweep was approved or already
  published before it, and so was one that is published after an approve request (which
  gives no post the status published). The manual publish request is not part of this:
  it publishes a post of any status.
\<close>

theorem published_only_from_approved:
  assumes "distinct (map post_id (posts s))"
  shows "only_from_approved s (cron_tick pub now s) \<and>
         only_from_approved s (snd (approve_route s pid))"
proof
  show "only_from_approved s (cron_tick pub now s)"
    using cron_tick_status_step [OF assms, of pub now]
    unfolding only_from_approved_def status_step_def
    by (rule list.rel_mono_strong) auto
  show "only_from_approved s (snd (approve_route s pid))"
    using approve_route_posts [of s pid]
    unfolding only_from_approved_def
    by (rule list.rel_mono_strong) (use str_published_not_approved in auto)
qed

theorem published_only_from_approved_witness:
  "distinct (map post_id [draft_post, approved_linkedin]) \<and>
   cron_tick publishToLinkedIn 1000 \<lparr>brands = [], posts = [draft_post, approved_linkedin]\<rparr> =
     \<lparr>brands = [],
      posts = [draft_post, approved_linkedin\<lparr>status := str ''published'', publishedAt := Some 1000\<rparr>]\<rparr> \<and>
   only_from_approved \<lparr>brands = [], posts = [draft_post, approved_linkedin]\<rparr>
     \<lparr>brands = [],
      posts = [draft_post, approved_linkedin\<lparr>status := str ''published'', publishedAt := Some 1000\<rparr>]\<rparr>"
proof -
  let ?s = "\<lparr>brands = [], posts = [draft_post, approved_linkedin]\<rparr>"
  have d: "distinct (map post_id (posts ?s))"
    by (simp add: draft_post_def approved_linkedin_def str_def)
  have c: "cron_tick publishToLinkedIn 1000 ?s =
     \<lparr>brands = [],
      posts = [draft_post, approved_linkedin\<lparr>status := str ''published'', publishedAt := Some 1000\<rparr>]\<rparr>"
    by (simp add: cron_tick_def due_rows_def route_eval draft_post_def approved_linkedin_def str_def)
  show ?thesis
    using d c published_only_from_approved [OF d, of publishToLinkedIn 1000] by simp
qed

text \<open>
  Claim C2 as stated fails: \<^verbatim>\<open>POST /posts/:id/publish\<close> never reads the status, and a
  draft goes to published in one request.
\<close>

theorem publish_route_from_draft:
  "status draft_post = str ''draft'' \<and>
   publish_route publishToLinkedIn 1000 \<lparr>brands = [], posts = [draft_post]\<rparr> (str ''p4'') =
     (RespResults [\<lparr>ok = True, url = Some (str ''https://www.linkedin.com/feed/update/mock'')\<rparr>],
      \<lparr>brands = [], posts = [draft_post\<lparr>status := str ''published'', publishedAt := Some 1000\<rparr>]\<rparr>) \<and>
   \<not> only_from_approved \<lparr>brands = [], posts = [draft_post]\<rparr>
        (snd (publish_route publishToLinkedIn 1000 \<lparr>brands = [], posts = [draft_post]\<rparr> (str ''p4'')))"
  by (simp add: route_eval draft_post_def only_from_approved_def str_def)

section \<open>PostLifecycle: approve\<close>

text \<open>
  Claim C9. For every existing post, \<^verbatim>\<open>POST /posts/:id/approve\<close> answers ok and sets the
  status of the row to \<open>approved\<close> whatever the status was (nothing in the route reads it);
  no other column and no other row changes, and the brands are untouched.
\<close>

theorem approve_unconditional:
  assumes "find_post s pid = Some p"
  shows "approve_route s pid =
           (RespOk,
            s\<lparr>posts := map (\<lambda>q. if post_id q = pid then q\<lparr>status := str ''approved''\<rparr> else q) (posts s)\<rparr>) \<and>
         find_post (snd (approve_route s pid)) pid = Some (p\<lparr>status := str ''approved''\<rparr>)"
proof -
  have i: "post_id p = pid" using assms by (rule find_post_id)
  have r: "approve_route s pid = (RespOk, update_post (\<lambda>q. q\<lparr>status := str ''approved''\<rparr>) pid s)"
    using assms i by (simp add: approve_route_def)
  have "find_post (update_post (\<lambda>q. q\<lparr>status := str ''approved''\<rparr>) pid s) pid
          = Some (p\<lparr>status := str ''approved''\<rparr>)"
    using assms i by (intro find_post_update_post) simp_all
  then show ?thesis
    using r by (simp add: update_post_def)
qed

theorem approve_unconditional_witness:
  "find_post \<lparr>brands = [], posts = [demo_post]\<rparr> (str ''p1'') = Some demo_post \<and>
   status demo_post = str ''published'' \<and>
   approve_route \<lparr>brands = [], posts = [demo_post]\<rparr> (str ''p1'') =
     (RespOk, \<lparr>brands = [], posts = [demo_post\<lparr>status := str ''approved''\<rparr>]\<rparr>)"
proof -
  have f: "find_post \<lparr>brands = [], posts = [demo_post]\<rparr> (str ''p1'') = Some demo_post"
    by (simp add: find_post_def demo_post_def)
  show ?thesis
    using f approve_unconditional [OF f] by (simp add: demo_post_def)
qed

section \<open>Post update\<close>



section \<open>DraftComposer\<close>

lemma pickWeighted_defined: "items \<noteq> [] \<Longrightarrow> \<exists>x. pickWeighted r items = Some x"
  by (cases items) (auto simp: pickWeighted_def Let_def split: option.splits)

lemma definedSelections_map:
  assumes "ps \<noteq> []" "fs \<noteq> []"
  shows "\<exists>sel. definedSelections
                 (map (\<lambda>i. (pickWeighted (rnd (2 * i)) ps, pickWeighted (rnd (2 * i + 1)) fs)) xs)
               = Some sel"
proof (induction xs)
  case Nil
  then show ?case by simp
next
  case (Cons i xs)
  obtain a c where "pickWeighted (rnd (2 * i)) ps = Some a" "pickWeighted (rnd (2 * i + 1)) fs = Some c"
    using pickWeighted_defined [OF assms(1)] pickWeighted_defined [OF assms(2)] by metis
  then show ?case using Cons.IH by auto
qed

lemma prepare_succeeds:
  assumes "find_brand s brandId = Some b" "brandPillars b \<noteq> []" "brandFormats b \<noteq> []"
  shows "\<exists>sel. prepare env s brandId count = Inr (b, sel)"
  using assms definedSelections_map [OF assms(2,3), of "env_rnd env" "[0..<count]"]
  by (auto simp: prepare_def selections_def)

lemma generate_after_throw:
  "generatePostsForBrand env (GenThrows msg) s brandId count =
     (case prepare env s brandId count of
        Inl e \<Rightarrow> (Inl e, s)
      | Inr x \<Rightarrow> (Inl (GenerationFailure msg), s))"
  by (simp add: generatePostsForBrand_def split: sum.splits prod.splits)





lemma gen_brand_found: "find_brand gen_store (str ''b1'') = Some gen_brand"
  by (simp add: find_brand_def gen_store_def gen_brand_def)

lemma gen_prepare: "\<exists>sel. prepare gen_env gen_store (str ''b1'') 1 = Inr (gen_brand, sel)"
  by (rule prepare_succeeds [OF gen_brand_found])
     (simp_all add: brandPillars_def brandFormats_def gen_brand_def defaultFormats_def)



text \<open>
  Claim C6. When the call of the generator throws, \<^verbatim>\<open>generatePostsForBrand\<close> ends with
  an error and leaves the store as it was, for every brand id and count; and whenever the
  generator was reached (the part before the call succeeded) the error is the
  generator's own.
\<close>

theorem generator_failure_persists_nothing:
  "snd (generatePostsForBrand env (GenThrows msg) s brandId count) = s \<and>
   isl (fst (generatePostsForBrand env (GenThrows msg) s brandId count)) \<and>
   (\<forall>x. prepare env s brandId count = Inr x \<longrightarrow>
      generatePostsForBrand env (GenThrows msg) s brandId count = (Inl (GenerationFailure msg), s))"
  by (simp add: generate_after_throw split: sum.splits)

theorem generator_failure_persists_nothing_witness:
  "(\<exists>sel. prepare gen_env gen_store (str ''b1'') 1 = Inr (gen_brand, sel)) \<and>
   generatePostsForBrand gen_env (GenThrows (str ''401'')) gen_store (str ''b1'') 1 =
     (Inl (GenerationFailure (str ''401'')), gen_store)"
  using gen_prepare
    generator_failure_persists_nothing [of gen_env "str ''401''" gen_store "str ''b1''" 1]
  by auto






end
